theory Spec2Isabelle
  imports Complex_Main
begin

section \<open>Request orchestrator: \<open>retryOperation\<close> (services/geminiService.ts)\<close>

text \<open>
  A value caught by \<open>catch (error: any)\<close>. The only property the code reads is
  \<open>error.status\<close>; it is compared with \<open>===\<close> against the numbers 429 and 503, so a
  missing or non-numeric status is \<open>None\<close>. The message stands for the rest of the object
  and lets two error objects be told apart.
\<close>

record error =
  status :: "int option"
  message :: string

text \<open>
  What a rejected promise carries: \<open>lastError\<close> starts as \<open>undefined\<close> and
  \<open>throw lastError\<close> after the loop would throw that.
\<close>

datatype thrown = Undefined | Thrown error

text \<open>
  \<open>operation: () => Promise<T>\<close> is an effectful thunk. It is a function of the outside
  world \<open>'w\<close> (the remote service, the environment) that settles with an error or a value
  and leaves a new world behind.
\<close>

type_synonym ('w, 'a) operation = "'w \<Rightarrow> (error + 'a) \<times> 'w"

text \<open>
  The observable trace of one \<open>retryOperation\<close> run: the world it leaves, and what it did
  in order, an \<open>Invoke\<close> for each \<open>operation()\<close> call and a \<open>Sleep\<close> for each
  \<open>setTimeout\<close> delay awaited (in milliseconds).
\<close>

datatype action = Invoke | Sleep int

record 'w trace =
  world :: 'w
  actions :: "action list"

definition calls :: "'w trace \<Rightarrow> nat" where
  "calls t = length (filter (\<lambda>a. a = Invoke) (actions t))"

definition delays :: "'w trace \<Rightarrow> int list" where
  "delays t = concat (map (\<lambda>a. case a of Invoke \<Rightarrow> [] | Sleep d \<Rightarrow> [d]) (actions t))"

definition shouldRetry :: "error \<Rightarrow> bool" where
  "shouldRetry e = (status e = Some 429 \<or> status e = Some 503)"

text \<open>
  The \<open>for (let i = 0; i < maxRetries; i++)\<close> loop, entered at index \<open>i\<close>.
  \<open>Math.pow(2, i)\<close> is exact on the integers involved.
\<close>

function retryLoop ::
  "('w, 'a) operation \<Rightarrow> int \<Rightarrow> int \<Rightarrow> nat \<Rightarrow> thrown \<Rightarrow> 'w trace \<Rightarrow> (thrown + 'a) \<times> 'w trace"
where
  "retryLoop operation maxRetries initialDelay i lastError t =
     (if int i < maxRetries then
        (case operation (world t) of
           (Inr v, w') \<Rightarrow> (Inr v, t\<lparr>world := w', actions := actions t @ [Invoke]\<rparr>)
         | (Inl e, w') \<Rightarrow>
             (if shouldRetry e \<and> int i < maxRetries - 1 then
                retryLoop operation maxRetries initialDelay (Suc i) (Thrown e)
                  (t\<lparr>world := w',
                     actions := actions t @ [Invoke, Sleep (initialDelay * 2 ^ i)]\<rparr>)
              else (Inl (Thrown e), t\<lparr>world := w', actions := actions t @ [Invoke]\<rparr>)))
      else (Inl lastError, t))"
  by pat_completeness auto
termination
  by (relation "measure (\<lambda>(operation, maxRetries, initialDelay, i, lastError, t). nat (maxRetries - int i))")
     auto

declare retryLoop.simps [simp del]

definition retryOperation ::
  "('w, 'a) operation \<Rightarrow> int \<Rightarrow> int \<Rightarrow> 'w \<Rightarrow> (thrown + 'a) \<times> 'w trace"
where
  "retryOperation operation maxRetries initialDelay w =
     retryLoop operation maxRetries initialDelay 0 Undefined
       \<lparr>world = w, actions = []\<rparr>"

text \<open>The default parameters \<open>maxRetries = 3\<close>, \<open>initialDelay = 2000\<close>.\<close>

definition retryOperationDefault :: "('w, 'a) operation \<Rightarrow> 'w \<Rightarrow> (thrown + 'a) \<times> 'w trace" where
  "retryOperationDefault operation w = retryOperation operation 3 2000 w"

text \<open>The world after \<open>k\<close> invocations of the operation, and the outcome of invocation
  number \<open>k + 1\<close>.\<close>

definition worldAfter :: "('w, 'a) operation \<Rightarrow> nat \<Rightarrow> 'w \<Rightarrow> 'w" where
  "worldAfter operation k w = ((\<lambda>x. snd (operation x)) ^^ k) w"

definition outcomeAt :: "('w, 'a) operation \<Rightarrow> nat \<Rightarrow> 'w \<Rightarrow> error + 'a" where
  "outcomeAt operation k w = fst (operation (worldAfter operation k w))"

text \<open>
  The schedule of \<open>n\<close> attempts with base delay \<open>base\<close>: attempt number \<open>attempt\<close>
  (counted from 1) is followed by a sleep of \<open>base * 2 ^ (attempt - 1)\<close>, except the last.
\<close>

definition backoff :: "int \<Rightarrow> nat \<Rightarrow> action list" where
  "backoff base n =
     concat (map (\<lambda>attempt. [Invoke, Sleep (base * 2 ^ (attempt - 1))]) [1 ..< n]) @ [Invoke]"

text \<open>\<open>n\<close> failed attempts, each followed by its sleep, starting at loop index \<open>i\<close>.\<close>

definition rounds :: "int \<Rightarrow> nat \<Rightarrow> nat \<Rightarrow> action list" where
  "rounds base i n = concat (map (\<lambda>k. [Invoke, Sleep (base * 2 ^ k)]) [i ..< i + n])"

text \<open>A scripted operation: the world is the number of invocations made so far, and the
  \<open>k\<close>-th invocation settles with the \<open>k\<close>-th entry of the script (the last entry from then
  on).\<close>

definition scripted :: "(error + 'a) list \<Rightarrow> (nat, 'a) operation" where
  "scripted script n = (if n < length script then script ! n else last script, Suc n)"

definition busy :: error where
  "busy = \<lparr>status = Some 429, message = ''rate limited''\<rparr>"

definition busyAgain :: error where
  "busyAgain = \<lparr>status = Some 429, message = ''still rate limited''\<rparr>"

definition unavailable :: error where
  "unavailable = \<lparr>status = Some 503, message = ''unavailable''\<rparr>"

definition denied :: error where
  "denied = \<lparr>status = Some 403, message = ''forbidden''\<rparr>"

section \<open>Data model (types.ts)\<close>

datatype AppState = IDLE | ANALYZING | REVIEW_ANALYSIS | GENERATING_VISION | PLANNING | COMPLETE

datatype RestorationType =
  POLLINATOR_HAVEN | FOOD_FOREST | RAIN_GARDEN | NATIVE_MEADOW | COMMUNITY_PARK

datatype BudgetLevel = LOW | MEDIUM | HIGH

text \<open>
  \<open>suitability\<close> is read through \<open>Object.entries\<close>, so it is kept as the list of its
  (key, score) entries in property order. JSON numbers are modelled as reals.
\<close>

record SiteAnalysis =
  sunlightExposure :: string
  soilSealingEstimate :: real
  biodiversityScore :: real
  hardinessZoneEstimate :: string
  estimatedAreaSqM :: string
  observedFeatures :: "string list"
  ecologicalDeficits :: "string list"
  suitability :: "(RestorationType \<times> real) list"

record PlanPhase =
  phaseName :: string
  durationWeeks :: real
  tasks :: "string list"
  materialsNeeded :: "string list"
  estimatedCost :: real
  technicalNotes :: string
  recommendedServiceCategory :: string

record RestorationPlan =
  title :: string
  summary :: string
  totalDurationWeeks :: real
  totalEstimatedCost :: real
  currencySymbol :: string
  phases :: "PlanPhase list"
  maintenanceSchedule :: string
  longTermImpact :: string

record Coordinates =
  latitude :: real
  longitude :: real

record ServiceProvider =
  name :: string
  description :: string
  phoneNumber :: string
  address :: string

record LocalSearchResult =
  providers :: "ServiceProvider list"

record ProjectState =
  originalImage :: "string option"
  restoredImage :: "string option"
  analysis :: "SiteAnalysis option"
  selectedType :: "RestorationType option"
  budget :: BudgetLevel
  plan :: "RestorationPlan option"
  location :: "Coordinates option"

text \<open>JavaScript truthiness of a \<open>string | null | undefined\<close>: the empty string is falsy
  too.\<close>

definition truthy :: "string option \<Rightarrow> bool" where
  "truthy x = (case x of None \<Rightarrow> False | Some str \<Rightarrow> str \<noteq> [])"

section \<open>Local-service lookup: \<open>findLocalServices\<close> (services/geminiService.ts)\<close>

text \<open>\<open>getAI\<close>: throws when \<open>process.env.API_KEY\<close> is missing or empty.\<close>

definition getAI :: "string option \<Rightarrow> error + unit" where
  "getAI apiKey =
     (if \<not> truthy apiKey
      then Inl \<lparr>status = None,
                message = ''API Key is missing. Please check your environment variables.''\<rparr>
      else Inr ())"

text \<open>The SDK's reply; \<open>response.text\<close> may be undefined.\<close>

record GenerateContentResponse =
  responseText :: "string option"

text \<open>
  The \<open>try\<close> block of the operation handed to \<open>retryOperation\<close>. The remote call
  \<open>ai.models.generateContent\<close> and \<open>JSON.parse\<close> belong to the environment and are
  parameters: the first settles against the world, the second throws on malformed text.
\<close>

definition findLocalServices_try ::
  "string option \<Rightarrow> (string \<Rightarrow> Coordinates \<Rightarrow> ('w, GenerateContentResponse) operation) \<Rightarrow>
   (string \<Rightarrow> error + LocalSearchResult) \<Rightarrow> string \<Rightarrow> Coordinates \<Rightarrow>
   ('w, LocalSearchResult) operation"
where
  "findLocalServices_try apiKey generateContent parse query loc w =
     (case getAI apiKey of
        Inl e \<Rightarrow> (Inl e, w)
      | Inr ai \<Rightarrow>
          (case generateContent query loc w of
             (Inl e, w') \<Rightarrow> (Inl e, w')
           | (Inr response, w') \<Rightarrow>
               (if truthy (responseText response)
                then (parse (the (responseText response)), w')
                else (Inl \<lparr>status = None, message = ''No services found''\<rparr>, w'))))"

text \<open>The operation itself: \<open>catch (error) { ...; return { providers: [] }; }\<close>.\<close>

definition findLocalServices_operation ::
  "string option \<Rightarrow> (string \<Rightarrow> Coordinates \<Rightarrow> ('w, GenerateContentResponse) operation) \<Rightarrow>
   (string \<Rightarrow> error + LocalSearchResult) \<Rightarrow> string \<Rightarrow> Coordinates \<Rightarrow>
   ('w, LocalSearchResult) operation"
where
  "findLocalServices_operation apiKey generateContent parse query loc w =
     (case findLocalServices_try apiKey generateContent parse query loc w of
        (Inl e, w') \<Rightarrow> (Inr \<lparr>providers = []\<rparr>, w')
      | (Inr result, w') \<Rightarrow> (Inr result, w'))"

definition findLocalServices ::
  "string option \<Rightarrow> (string \<Rightarrow> Coordinates \<Rightarrow> ('w, GenerateContentResponse) operation) \<Rightarrow>
   (string \<Rightarrow> error + LocalSearchResult) \<Rightarrow> string \<Rightarrow> Coordinates \<Rightarrow>
   'w \<Rightarrow> (thrown + LocalSearchResult) \<times> 'w trace"
where
  "findLocalServices apiKey generateContent parse query loc w =
     retryOperationDefault (findLocalServices_operation apiKey generateContent parse query loc) w"

text \<open>Sample environments: a remote service scripted per request, and a parser that accepts
  exactly one text.\<close>

definition scriptedService ::
  "(error + GenerateContentResponse) list \<Rightarrow> string \<Rightarrow> Coordinates \<Rightarrow>
   (nat, GenerateContentResponse) operation"
where
  "scriptedService script query loc = scripted script"

definition nursery :: ServiceProvider where
  "nursery = \<lparr>name = ''Green Roots'', description = ''Native plant nursery'',
              phoneNumber = ''+1 555 0100'', address = ''1 Elm Street''\<rparr>"

definition sampleParse :: "string \<Rightarrow> error + LocalSearchResult" where
  "sampleParse txt =
     (if txt = ''ok'' then Inr \<lparr>providers = [nursery]\<rparr>
      else Inl \<lparr>status = None, message = ''SyntaxError''\<rparr>)"

definition here :: Coordinates where
  "here = \<lparr>latitude = 52, longitude = 13\<rparr>"

section \<open>Plan view: \<open>handleSearchForPhase\<close> (components/PlanView)\<close>

text \<open>
  The view's two \<open>useState\<close> cells, both \<open>Record<number, _>\<close>, together with what the
  handler does to the outside: the \<open>alert\<close> texts shown, the number of
  \<open>findLocalServices\<close> invocations, and the world those invocations act on.
\<close>

record 'w PlanView =
  phaseResults :: "int \<rightharpoonup> LocalSearchResult"
  loadingPhases :: "int \<rightharpoonup> bool"
  viewAlerts :: "string list"
  lookups :: nat
  net :: 'w

text \<open>
  \<open>handleSearchForPhase\<close>, run to completion. \<open>lookup\<close> is the imported
  \<open>findLocalServices\<close>; the \<open>finally\<close> block runs on both paths after the \<open>await\<close>.
\<close>

definition handleSearchForPhase ::
  "(string \<Rightarrow> Coordinates \<Rightarrow> 'w \<Rightarrow> (thrown + LocalSearchResult) \<times> 'w trace) \<Rightarrow>
   Coordinates option \<Rightarrow> int \<Rightarrow> string \<Rightarrow> 'w PlanView \<Rightarrow> 'w PlanView"
where
  "handleSearchForPhase lookup loc index category v =
     (case loc of
        None \<Rightarrow> v\<lparr>viewAlerts := viewAlerts v @ [''Location is required to find local help.'']\<rparr>
      | Some l \<Rightarrow>
          (let v1 = v\<lparr>loadingPhases := (loadingPhases v)(index \<mapsto> True)\<rparr>;
               (outcome, t) = lookup category l (net v1);
               v2 = v1\<lparr>lookups := Suc (lookups v1), net := world t\<rparr>;
               v3 = (case outcome of
                       Inr result \<Rightarrow> v2\<lparr>phaseResults := (phaseResults v2)(index \<mapsto> result)\<rparr>
                     | Inl e \<Rightarrow>
                         v2\<lparr>viewAlerts := viewAlerts v2 @
                              [''Failed to find local services. Please try again later.'']\<rparr>)
           in v3\<lparr>loadingPhases := (loadingPhases v3)(index \<mapsto> False)\<rparr>))"

section \<open>Analysis review view: the strategy buttons (components/AnalysisView.tsx)\<close>

definition suitabilityData :: "SiteAnalysis \<Rightarrow> (RestorationType \<times> real) list" where
  "suitabilityData a = map (\<lambda>(nm, score). (nm, score)) (suitability a)"

definition isViable :: "real \<Rightarrow> bool" where
  "isViable score = (score > 30)"

text \<open>
  One rendered \<open><button>\<close>: its key, its \<open>disabled\<close> attribute, and the \<open>onSelectType\<close>
  calls its \<open>onClick\<close> handler makes when it runs.
\<close>

record StrategyButton =
  buttonKey :: RestorationType
  disabled :: bool
  onClick :: "(RestorationType \<times> BudgetLevel) list"

definition strategyButton ::
  "BudgetLevel \<Rightarrow> bool \<Rightarrow> RestorationType \<times> real \<Rightarrow> StrategyButton" where
  "strategyButton selectedBudget isGenerating item =
     \<lparr>buttonKey = fst item,
      disabled = (isGenerating \<or> \<not> isViable (snd item)),
      onClick = (if isViable (snd item) then [(fst item, selectedBudget)] else [])\<rparr>"

definition AnalysisView :: "SiteAnalysis \<Rightarrow> BudgetLevel \<Rightarrow> bool \<Rightarrow> StrategyButton list" where
  "AnalysisView a selectedBudget isGenerating =
     map (strategyButton selectedBudget isGenerating) (suitabilityData a)"

text \<open>A user click: the browser dispatches no click event on a disabled button.\<close>

definition click :: "StrategyButton \<Rightarrow> (RestorationType \<times> BudgetLevel) list" where
  "click b = (if disabled b then [] else onClick b)"

text \<open>Every \<open>onSelectType\<close> call the rendered view can make.\<close>

definition selectable :: "SiteAnalysis \<Rightarrow> BudgetLevel \<Rightarrow> bool \<Rightarrow> (RestorationType \<times> BudgetLevel) list" where
  "selectable a selectedBudget isGenerating =
     concat (map click (AnalysisView a selectedBudget isGenerating))"

section \<open>Application controller (App.tsx)\<close>

text \<open>
  The two \<open>useState\<close> cells of \<open>App\<close> that the handlers write, and the \<open>alert\<close>
  texts shown so far.
\<close>

record Controller =
  appState :: AppState
  project :: ProjectState
  alerts :: "string list"

definition initialProject :: ProjectState where
  "initialProject =
     \<lparr>originalImage = None, restoredImage = None, analysis = None, selectedType = None,
      budget = MEDIUM, plan = None, location = None\<rparr>"

definition initialController :: Controller where
  "initialController = \<lparr>appState = IDLE, project = initialProject, alerts = []\<rparr>"

text \<open>
  An \<open>async\<close> handler runs in two parts: the code up to its \<open>await\<close>, and the rest, which
  runs when the awaited promise settles. The second part only calls state setters
  (\<open>setAppState(x)\<close>, \<open>setProject(prev => ...)\<close>), so it acts on whatever the state is at
  that moment.
\<close>

definition startAnalysis_begin :: "string \<Rightarrow> 'm Controller_scheme \<Rightarrow> 'm Controller_scheme" where
  "startAnalysis_begin base64Data s = s\<lparr>appState := ANALYZING\<rparr>"

definition startAnalysis_settle ::
  "thrown + SiteAnalysis \<Rightarrow> 'm Controller_scheme \<Rightarrow> 'm Controller_scheme" where
  "startAnalysis_settle outcome s =
     (case outcome of
        Inr a \<Rightarrow> s\<lparr>project := (project s)\<lparr>analysis := Some a\<rparr>, appState := REVIEW_ANALYSIS\<rparr>
      | Inl e \<Rightarrow>
          s\<lparr>appState := IDLE,
            alerts := alerts s @ [''Failed to analyze image. Please try again.'']\<rparr>)"

text \<open>\<open>startAnalysis\<close> with nothing else running between its two parts.\<close>

definition startAnalysis ::
  "string \<Rightarrow> thrown + SiteAnalysis \<Rightarrow> 'm Controller_scheme \<Rightarrow> 'm Controller_scheme" where
  "startAnalysis base64Data outcome s = startAnalysis_settle outcome (startAnalysis_begin base64Data s)"

text \<open>The \<open>reader.onloadend\<close> callback of \<open>handleFileUpload\<close> and \<open>handleDemoLoad\<close>, up to
  the \<open>await\<close> inside \<open>startAnalysis\<close>.\<close>

definition handleFileUpload ::
  "string \<Rightarrow> 'm Controller_scheme \<Rightarrow> 'm Controller_scheme" where
  "handleFileUpload base64Data s =
     startAnalysis_begin base64Data (s\<lparr>project := (project s)\<lparr>originalImage := Some base64Data\<rparr>\<rparr>)"

text \<open>The success callback of \<open>handleLocationRequest\<close>.\<close>

definition handleLocationRequest ::
  "Coordinates \<Rightarrow> 'm Controller_scheme \<Rightarrow> 'm Controller_scheme" where
  "handleLocationRequest position s = s\<lparr>project := (project s)\<lparr>location := Some position\<rparr>\<rparr>"

text \<open>
  \<open>handleTypeSelection\<close> up to \<open>await Promise.all\<close>. The flag tells whether the guard let
  it through, that is, whether \<open>generateVisionImage\<close> and \<open>createExecutionPlan\<close> were
  called.
\<close>

definition handleTypeSelection_begin ::
  "RestorationType \<Rightarrow> BudgetLevel \<Rightarrow> 'm Controller_scheme \<Rightarrow> 'm Controller_scheme \<times> bool" where
  "handleTypeSelection_begin type bud s =
     (if \<not> truthy (originalImage (project s)) \<or> analysis (project s) = None then (s, False)
      else (s\<lparr>project := (project s)\<lparr>selectedType := Some type, budget := bud\<rparr>,
              appState := GENERATING_VISION\<rparr>, True))"

text \<open>
  \<open>Promise.all([imagePromise, planPromise])\<close>: fulfilled with both values when both
  fulfil, rejected with the reason of whichever input rejects first. \<open>imageFirst\<close> says that
  the image promise settles before the plan promise.
\<close>

definition promiseAll :: "thrown + 'a \<Rightarrow> thrown + 'b \<Rightarrow> bool \<Rightarrow> thrown + ('a \<times> 'b)" where
  "promiseAll imageOutcome planOutcome imageFirst =
     (case (imageOutcome, planOutcome) of
        (Inr x, Inr y) \<Rightarrow> Inr (x, y)
      | (Inl e, Inr y) \<Rightarrow> Inl e
      | (Inr x, Inl e) \<Rightarrow> Inl e
      | (Inl e1, Inl e2) \<Rightarrow> Inl (if imageFirst then e1 else e2))"

definition handleTypeSelection_settle ::
  "thrown + (string \<times> RestorationPlan) \<Rightarrow> 'm Controller_scheme \<Rightarrow> 'm Controller_scheme" where
  "handleTypeSelection_settle outcome s =
     (case outcome of
        Inr (img, pl) \<Rightarrow>
          s\<lparr>project := (project s)\<lparr>restoredImage := Some img, plan := Some pl\<rparr>,
            appState := COMPLETE\<rparr>
      | Inl e \<Rightarrow>
          s\<lparr>appState := REVIEW_ANALYSIS,
            alerts := alerts s @ [''Generation failed. Please try again.'']\<rparr>)"

text \<open>\<open>handleTypeSelection\<close> with nothing else running between its two parts.\<close>

definition handleTypeSelection ::
  "RestorationType \<Rightarrow> BudgetLevel \<Rightarrow> thrown + string \<Rightarrow> thrown + RestorationPlan \<Rightarrow> bool \<Rightarrow>
   'm Controller_scheme \<Rightarrow> 'm Controller_scheme" where
  "handleTypeSelection type bud imageOutcome planOutcome imageFirst s =
     (case handleTypeSelection_begin type bud s of
        (s1, False) \<Rightarrow> s1
      | (s1, True) \<Rightarrow>
          handleTypeSelection_settle (promiseAll imageOutcome planOutcome imageFirst) s1)"

definition resetApp :: "'m Controller_scheme \<Rightarrow> 'm Controller_scheme" where
  "resetApp s = s\<lparr>appState := IDLE, project := initialProject\<rparr>"

subsection \<open>Sessions: handlers interleaved at their awaits\<close>

text \<open>
  A session is the controller state together with the number of \<open>startAnalysis\<close> and
  \<open>handleTypeSelection\<close> invocations still waiting at their \<open>await\<close>. No handler cancels
  another: \<open>resetApp\<close> leaves the waiting invocations in place.
\<close>

record Session = Controller +
  pendingAnalyses :: nat
  pendingGenerations :: nat

definition initialSession :: Session where
  "initialSession =
     \<lparr>appState = IDLE, project = initialProject, alerts = [],
      pendingAnalyses = 0, pendingGenerations = 0\<rparr>"

datatype event =
    Upload string
  | AnalysisSettled "thrown + SiteAnalysis"
  | LocationGranted Coordinates
  | SelectType RestorationType BudgetLevel
  | GenerationSettled "thrown + string" "thrown + RestorationPlan" bool
  | Reset

text \<open>One turn of the event loop; \<open>None\<close> when a promise is reported settled that nobody
  awaits.\<close>

fun step :: "event \<Rightarrow> Session \<Rightarrow> Session option" where
  "step (Upload base64Data) s =
     Some ((handleFileUpload base64Data s)\<lparr>pendingAnalyses := Suc (pendingAnalyses s)\<rparr>)"
| "step (AnalysisSettled outcome) s =
     (if pendingAnalyses s = 0 then None
      else Some ((startAnalysis_settle outcome s)\<lparr>pendingAnalyses := pendingAnalyses s - 1\<rparr>))"
| "step (LocationGranted position) s = Some (handleLocationRequest position s)"
| "step (SelectType type bud) s =
     (case handleTypeSelection_begin type bud s of
        (s1, False) \<Rightarrow> Some s1
      | (s1, True) \<Rightarrow> Some (s1\<lparr>pendingGenerations := Suc (pendingGenerations s)\<rparr>))"
| "step (GenerationSettled imageOutcome planOutcome imageFirst) s =
     (if pendingGenerations s = 0 then None
      else Some ((handleTypeSelection_settle (promiseAll imageOutcome planOutcome imageFirst) s)
                   \<lparr>pendingGenerations := pendingGenerations s - 1\<rparr>))"
| "step Reset s = Some (resetApp s)"

text \<open>
  What the rendered page lets the user do: the upload controls and the location button exist
  only on the \<open>IDLE\<close> page (the latter disabled once a location is known), the strategy
  buttons only on the \<open>REVIEW_ANALYSIS\<close> page with an analysis present, and the header's
  reset is always there. Settling a promise is the environment's move.
\<close>

fun viewAllows :: "event \<Rightarrow> Session \<Rightarrow> bool" where
  "viewAllows (Upload base64Data) s = (appState s = IDLE)"
| "viewAllows (LocationGranted position) s = (appState s = IDLE \<and> location (project s) = None)"
| "viewAllows (SelectType type bud) s =
     (appState s = REVIEW_ANALYSIS \<and>
      (case analysis (project s) of
         None \<Rightarrow> False
       | Some a \<Rightarrow> (type, bud) \<in> set (selectable a bud False)))"
| "viewAllows (AnalysisSettled outcome) s = True"
| "viewAllows (GenerationSettled imageOutcome planOutcome imageFirst) s = True"
| "viewAllows Reset s = True"

text \<open>Running a list of events. \<open>run\<close> lets any handler be invoked at any time;
  \<open>runView\<close> only what the page on screen offers.\<close>

fun run :: "event list \<Rightarrow> Session \<Rightarrow> Session option" where
  "run [] s = Some s"
| "run (e # es) s = (case step e s of None \<Rightarrow> None | Some s' \<Rightarrow> run es s')"

fun runView :: "event list \<Rightarrow> Session \<Rightarrow> Session option" where
  "runView [] s = Some s"
| "runView (e # es) s =
     (if viewAllows e s then (case step e s of None \<Rightarrow> None | Some s' \<Rightarrow> runView es s')
      else None)"

text \<open>No \<open>resetApp\<close> happens while a \<open>handleTypeSelection\<close> is waiting for its results.\<close>

fun resetsWhenSettled :: "event list \<Rightarrow> Session \<Rightarrow> bool" where
  "resetsWhenSettled [] s = True"
| "resetsWhenSettled (e # es) s =
     ((e = Reset \<longrightarrow> pendingGenerations s = 0) \<and>
      (case step e s of None \<Rightarrow> True | Some s' \<Rightarrow> resetsWhenSettled es s'))"

definition planWithoutAnalysis :: "Session \<Rightarrow> bool" where
  "planWithoutAnalysis s = (plan (project s) \<noteq> None \<and> analysis (project s) = None)"

text \<open>Sample data.\<close>

definition sampleAnalysis :: SiteAnalysis where
  "sampleAnalysis =
     \<lparr>sunlightExposure = ''Full Sun'', soilSealingEstimate = 90, biodiversityScore = 2,
      hardinessZoneEstimate = ''8a'', estimatedAreaSqM = ''10-20'',
      observedFeatures = [''pavement''], ecologicalDeficits = [''no habitat''],
      suitability = [(POLLINATOR_HAVEN, 85), (FOOD_FOREST, 15), (RAIN_GARDEN, 30),
                     (NATIVE_MEADOW, 60), (COMMUNITY_PARK, 10)]\<rparr>"

definition samplePlan :: RestorationPlan where
  "samplePlan =
     \<lparr>title = ''Pollinator yard'', summary = ''Depave and plant'', totalDurationWeeks = 6,
      totalEstimatedCost = 1200, currencySymbol = ''$'',
      phases = [\<lparr>phaseName = ''Depave'', durationWeeks = 2, tasks = [''lift slabs''],
                 materialsNeeded = [''skip''], estimatedCost = 400,
                 technicalNotes = ''check drains'',
                 recommendedServiceCategory = ''Waste Removal''\<rparr>],
      maintenanceSchedule = ''water monthly'', longTermImpact = ''more insects''\<rparr>"

definition staleGeneration :: "event list" where
  "staleGeneration =
     [Upload ''photo'', AnalysisSettled (Inr sampleAnalysis), SelectType POLLINATOR_HAVEN MEDIUM,
      Reset, GenerationSettled (Inr ''render'') (Inr samplePlan) True]"

definition completedFlow :: "event list" where
  "completedFlow =
     [Upload ''photo'', AnalysisSettled (Inr sampleAnalysis), SelectType POLLINATOR_HAVEN MEDIUM,
      GenerationSettled (Inr ''render'') (Inr samplePlan) True, Reset, Upload ''photo'',
      AnalysisSettled (Inr sampleAnalysis), SelectType NATIVE_MEADOW LOW,
      GenerationSettled (Inr ''render'') (Inr samplePlan) False]"

text \<open>The session once the sample analysis of an uploaded photo has arrived.\<close>

definition reviewSession :: Session where
  "reviewSession =
     \<lparr>appState = REVIEW_ANALYSIS,
      project = \<lparr>originalImage = Some ''photo'', restoredImage = None,
                 analysis = Some sampleAnalysis, selectedType = None, budget = MEDIUM,
                 plan = None, location = None\<rparr>,
      alerts = [], pendingAnalyses = 0, pendingGenerations = 0\<rparr>"

definition emptyView :: "nat PlanView" where
  "emptyView =
     \<lparr>phaseResults = Map.empty, loadingPhases = Map.empty, viewAlerts = [], lookups = 0, net = 0\<rparr>"

section \<open>Properties of the request orchestrator\<close>

lemma worldAfter_0: "worldAfter operation 0 w = w"
  by (simp add: worldAfter_def)

lemma worldAfter_Suc: "worldAfter operation (Suc k) w = worldAfter operation k (snd (operation w))"
  by (simp only: worldAfter_def funpow_Suc_right o_apply)

lemma outcomeAt_0: "outcomeAt operation 0 w = fst (operation w)"
  by (simp add: outcomeAt_def worldAfter_0)

lemma outcomeAt_Suc: "outcomeAt operation (Suc k) w = outcomeAt operation k (snd (operation w))"
  by (simp add: outcomeAt_def worldAfter_Suc)

lemma rounds_0: "rounds base i 0 = []"
  by (simp add: rounds_def)

lemma rounds_Suc: "rounds base i (Suc n) = [Invoke, Sleep (base * 2 ^ i)] @ rounds base (Suc i) n"
  by (simp add: rounds_def upt_conv_Cons)

lemma backoff_rounds: "backoff base (Suc n) = rounds base 0 n @ [Invoke]"
proof -
  have "[1 ..< Suc n] = map Suc [0 ..< n]"
    by (simp add: map_Suc_upt)
  then show ?thesis
    by (simp add: backoff_def rounds_def comp_def)
qed

lemma retryLoop_settles:
  "\<forall>k<n. \<exists>e. outcomeAt operation k (world t) = Inl e \<and> shouldRetry e \<Longrightarrow>
   outcomeAt operation n (world t) = Inr v \<Longrightarrow>
   int (i + n) < maxRetries \<Longrightarrow>
   retryLoop operation maxRetries initialDelay i lastError t =
     (Inr v, t\<lparr>world := worldAfter operation (Suc n) (world t),
              actions := actions t @ rounds initialDelay i n @ [Invoke]\<rparr>)"
proof (induction n arbitrary: i lastError t)
  case 0
  then obtain w' where "operation (world t) = (Inr v, w')"
    by (cases "operation (world t)") (simp add: outcomeAt_0)
  with 0 show ?case
    by (subst retryLoop.simps) (simp add: worldAfter_Suc worldAfter_0 rounds_0)
next
  case (Suc n)
  from Suc.prems(1) obtain e where e: "outcomeAt operation 0 (world t) = Inl e" "shouldRetry e"
    by blast
  then obtain w' where op: "operation (world t) = (Inl e, w')"
    by (cases "operation (world t)") (simp add: outcomeAt_0)
  let ?t' = "t\<lparr>world := w', actions := actions t @ [Invoke, Sleep (initialDelay * 2 ^ i)]\<rparr>"
  have a: "\<forall>k<n. \<exists>e. outcomeAt operation k (world ?t') = Inl e \<and> shouldRetry e"
    using Suc.prems(1) op by (auto simp: outcomeAt_Suc dest: Suc_mono)
  have b: "outcomeAt operation n (world ?t') = Inr v"
    using Suc.prems(2) op by (simp add: outcomeAt_Suc)
  have c: "int (Suc i + n) < maxRetries" using Suc.prems(3) by simp
  have step: "retryLoop operation maxRetries initialDelay i lastError t =
      retryLoop operation maxRetries initialDelay (Suc i) (Thrown e) ?t'"
    using op e(2) Suc.prems(3) by (subst retryLoop.simps) simp
  show ?case
    unfolding step Suc.IH [OF a b c]
    using op by (simp add: worldAfter_Suc rounds_Suc)
qed

lemma retryLoop_gives_up:
  "\<forall>k<n. \<exists>e. outcomeAt operation k (world t) = Inl e \<and> shouldRetry e \<Longrightarrow>
   outcomeAt operation n (world t) = Inl e' \<Longrightarrow>
   int (i + n) < maxRetries \<Longrightarrow>
   \<not> shouldRetry e' \<or> int (i + n) = maxRetries - 1 \<Longrightarrow>
   retryLoop operation maxRetries initialDelay i lastError t =
     (Inl (Thrown e'), t\<lparr>world := worldAfter operation (Suc n) (world t),
              actions := actions t @ rounds initialDelay i n @ [Invoke]\<rparr>)"
proof (induction n arbitrary: i lastError t)
  case 0
  then obtain w' where "operation (world t) = (Inl e', w')"
    by (cases "operation (world t)") (simp add: outcomeAt_0)
  with 0 show ?case
    by (subst retryLoop.simps) (auto simp add: worldAfter_Suc worldAfter_0 rounds_0)
next
  case (Suc n)
  from Suc.prems(1) obtain e where e: "outcomeAt operation 0 (world t) = Inl e" "shouldRetry e"
    by blast
  then obtain w' where op: "operation (world t) = (Inl e, w')"
    by (cases "operation (world t)") (simp add: outcomeAt_0)
  let ?t' = "t\<lparr>world := w', actions := actions t @ [Invoke, Sleep (initialDelay * 2 ^ i)]\<rparr>"
  have a: "\<forall>k<n. \<exists>e. outcomeAt operation k (world ?t') = Inl e \<and> shouldRetry e"
    using Suc.prems(1) op by (auto simp: outcomeAt_Suc dest: Suc_mono)
  have b: "outcomeAt operation n (world ?t') = Inl e'"
    using Suc.prems(2) op by (simp add: outcomeAt_Suc)
  have c: "int (Suc i + n) < maxRetries" using Suc.prems(3) by simp
  have d: "\<not> shouldRetry e' \<or> int (Suc i + n) = maxRetries - 1" using Suc.prems(4) by simp
  have step: "retryLoop operation maxRetries initialDelay i lastError t =
      retryLoop operation maxRetries initialDelay (Suc i) (Thrown e) ?t'"
    using op e(2) Suc.prems(3) by (subst retryLoop.simps) simp
  show ?case
    unfolding step Suc.IH [OF a b c d]
    using op by (simp add: worldAfter_Suc rounds_Suc)
qed

lemma calls_rounds:
  "length (filter (\<lambda>a. a = Invoke) (concat (map (\<lambda>k. [Invoke, Sleep (f k)]) xs))) = length xs"
  by (induction xs) simp_all

lemma delays_rounds:
  "concat (map (\<lambda>a. case a of Invoke \<Rightarrow> [] | Sleep d \<Rightarrow> [d])
     (concat (map (\<lambda>k. [Invoke, Sleep (f k)]) xs))) = map f xs"
  by (induction xs) simp_all

lemma calls_backoff: "0 < n \<Longrightarrow> calls \<lparr>world = w, actions = backoff base n\<rparr> = n"
  by (simp add: calls_def backoff_def calls_rounds)

lemma delays_backoff:
  "delays \<lparr>world = w, actions = backoff base n\<rparr> = map (\<lambda>attempt. base * 2 ^ (attempt - 1)) [1 ..< n]"
  by (simp add: delays_def backoff_def delays_rounds)

text \<open>
  Claim C1. When every one of the \<open>maxRetries\<close> invocations fails with status 429 or 503,
  \<open>retryOperation\<close> invokes the operation exactly \<open>maxRetries\<close> times, sleeps
  \<open>initialDelay * 2 ^ (attempt - 1)\<close> milliseconds after each attempt but the last, and rejects
  with the error of the last attempt. (\<open>maxRetries\<close> is at least 1; the default is 3, with
  \<open>initialDelay = 2000\<close>.)
\<close>

theorem retryOperation_transient_exhausts:
  assumes pos: "0 < maxRetries"
    and fails: "\<forall>k < nat maxRetries. outcomeAt operation k w = Inl (errs k) \<and> shouldRetry (errs k)"
  shows "retryOperation operation maxRetries initialDelay w =
           (Inl (Thrown (errs (nat maxRetries - 1))),
            \<lparr>world = worldAfter operation (nat maxRetries) w,
             actions = backoff initialDelay (nat maxRetries)\<rparr>)
         \<and> calls (snd (retryOperation operation maxRetries initialDelay w)) = nat maxRetries
         \<and> delays (snd (retryOperation operation maxRetries initialDelay w)) =
             map (\<lambda>attempt. initialDelay * 2 ^ (attempt - 1)) [1 ..< nat maxRetries]"
proof -
  define n where "n = nat maxRetries - 1"
  have M: "nat maxRetries = Suc n" "maxRetries = int (Suc n)"
    using pos by (simp_all add: n_def)
  let ?t = "\<lparr>world = w, actions = []\<rparr>"
  have a: "\<forall>k<n. \<exists>e. outcomeAt operation k (world ?t) = Inl e \<and> shouldRetry e"
    using fails M by auto
  have b: "outcomeAt operation n (world ?t) = Inl (errs n)"
    using fails M by simp
  have c: "int (0 + n) < maxRetries" using M by simp
  have d: "\<not> shouldRetry (errs n) \<or> int (0 + n) = maxRetries - 1" using M by simp
  have r: "retryOperation operation maxRetries initialDelay w =
           (Inl (Thrown (errs n)),
            \<lparr>world = worldAfter operation (Suc n) w, actions = backoff initialDelay (Suc n)\<rparr>)"
    unfolding retryOperation_def retryLoop_gives_up [OF a b c d]
    by (simp add: backoff_rounds)
  have r': "retryOperation operation maxRetries initialDelay w =
           (Inl (Thrown (errs (nat maxRetries - 1))),
            \<lparr>world = worldAfter operation (nat maxRetries) w,
             actions = backoff initialDelay (nat maxRetries)\<rparr>)"
    using r [unfolded M(1) [symmetric]] by (simp only: n_def)
  have p: "0 < nat maxRetries" using pos by simp
  show ?thesis
    by (simp only: r' snd_conv calls_backoff [OF p] delays_backoff simp_thms)
qed

lemma scripted_outcomes:
  "outcomeAt (scripted script) k n = (if n + k < length script then script ! (n + k) else last script)"
  "worldAfter (scripted script) k n = n + k"
proof -
  show w: "worldAfter (scripted script) k n = n + k" for k n
    by (induction k arbitrary: n) (simp_all add: worldAfter_0 worldAfter_Suc scripted_def)
  show "outcomeAt (scripted script) k n = (if n + k < length script then script ! (n + k) else last script)"
    by (simp add: outcomeAt_def w scripted_def)
qed

text \<open>
  The default policy on three transient failures: three invocations, sleeps of 2000 and 4000
  milliseconds between them, and the third error propagated.
\<close>

theorem retryOperation_transient_exhausts_witness:
  "retryOperationDefault (scripted [Inl busy, Inl unavailable, Inl busyAgain :: error + int]) 0 =
     (Inl (Thrown busyAgain),
      \<lparr>world = 3, actions = [Invoke, Sleep 2000, Invoke, Sleep 4000, Invoke]\<rparr>)
   \<and> calls (snd (retryOperationDefault (scripted [Inl busy, Inl unavailable, Inl busyAgain :: error + int]) 0)) = 3
   \<and> delays (snd (retryOperationDefault (scripted [Inl busy, Inl unavailable, Inl busyAgain :: error + int]) 0)) = [2000, 4000]"
proof -
  let ?op = "scripted [Inl busy, Inl unavailable, Inl busyAgain :: error + int]"
  let ?errs = "\<lambda>k. [busy, unavailable, busyAgain] ! k"
  have h1: "(0::int) < 3" by simp
  have h2: "\<forall>k < nat 3. outcomeAt ?op k 0 = Inl (?errs k) \<and> shouldRetry (?errs k)"
    by (simp add: scripted_outcomes less_Suc_eq numeral_3_eq_3 shouldRetry_def busy_def
        unavailable_def busyAgain_def)
  show ?thesis
    using retryOperation_transient_exhausts [OF h1 h2, of 2000]
    by (simp add: retryOperationDefault_def scripted_outcomes backoff_def numeral_3_eq_3
        upt_conv_Cons calls_def delays_def)
qed

text \<open>
  Claim C2, as the code has it. After three transient failures the default policy has used up
  its three attempts: the operation is invoked exactly 3 times and the third error is
  propagated, so a fourth invocation that would succeed is never made. Four invocations, and
  the fourth one's value, need \<open>maxRetries\<close> of at least 4.
\<close>

theorem retryOperation_three_failures:
  assumes fails: "\<forall>k<3. outcomeAt operation k w = Inl (errs k) \<and> shouldRetry (errs k)"
    and fourth: "outcomeAt operation 3 w = Inr v"
  shows "retryOperationDefault operation w =
           (Inl (Thrown (errs 2)),
            \<lparr>world = worldAfter operation 3 w,
             actions = [Invoke, Sleep 2000, Invoke, Sleep 4000, Invoke]\<rparr>)
         \<and> (3 < maxRetries \<longrightarrow>
              retryOperation operation maxRetries initialDelay w =
                (Inr v,
                 \<lparr>world = worldAfter operation 4 w,
                  actions = [Invoke, Sleep initialDelay, Invoke, Sleep (initialDelay * 2),
                             Invoke, Sleep (initialDelay * 4), Invoke]\<rparr>))"
proof
  let ?t = "\<lparr>world = w, actions = []\<rparr>"
  have a: "\<forall>k<2. \<exists>e. outcomeAt operation k (world ?t) = Inl e \<and> shouldRetry e"
    using fails by auto
  have b: "outcomeAt operation 2 (world ?t) = Inl (errs 2)"
    using fails by simp
  have c: "int (0 + 2) < 3" by simp
  have d: "\<not> shouldRetry (errs 2) \<or> int (0 + 2) = 3 - 1" by simp
  show "retryOperationDefault operation w =
           (Inl (Thrown (errs 2)),
            \<lparr>world = worldAfter operation 3 w,
             actions = [Invoke, Sleep 2000, Invoke, Sleep 4000, Invoke]\<rparr>)"
    unfolding retryOperationDefault_def retryOperation_def retryLoop_gives_up [OF a b c d]
    by (simp add: rounds_def numeral_2_eq_2 numeral_3_eq_3 upt_conv_Cons)
next
  let ?t = "\<lparr>world = w, actions = []\<rparr>"
  show "3 < maxRetries \<longrightarrow>
              retryOperation operation maxRetries initialDelay w =
                (Inr v,
                 \<lparr>world = worldAfter operation 4 w,
                  actions = [Invoke, Sleep initialDelay, Invoke, Sleep (initialDelay * 2),
                             Invoke, Sleep (initialDelay * 4), Invoke]\<rparr>)"
  proof
    assume m: "3 < maxRetries"
    have a: "\<forall>k<3. \<exists>e. outcomeAt operation k (world ?t) = Inl e \<and> shouldRetry e"
      using fails by auto
    have b: "outcomeAt operation 3 (world ?t) = Inr v"
      using fourth by simp
    have c: "int (0 + 3) < maxRetries" using m by simp
    show "retryOperation operation maxRetries initialDelay w =
                (Inr v,
                 \<lparr>world = worldAfter operation 4 w,
                  actions = [Invoke, Sleep initialDelay, Invoke, Sleep (initialDelay * 2),
                             Invoke, Sleep (initialDelay * 4), Invoke]\<rparr>)"
      unfolding retryOperation_def retryLoop_settles [OF a b c]
      by (simp add: rounds_def numeral_3_eq_3 upt_conv_Cons eval_nat_numeral)
  qed
qed

text \<open>
  An operation failing with 429, 503, 429 and then returning 42: rejected after three
  attempts by default, resolved with 42 after four attempts when \<open>maxRetries = 4\<close>.
\<close>

theorem retryOperation_three_failures_witness:
  "retryOperationDefault (scripted [Inl busy, Inl unavailable, Inl busyAgain, Inr (42::int)]) 0 =
     (Inl (Thrown busyAgain),
      \<lparr>world = 3, actions = [Invoke, Sleep 2000, Invoke, Sleep 4000, Invoke]\<rparr>)
   \<and> retryOperation (scripted [Inl busy, Inl unavailable, Inl busyAgain, Inr (42::int)]) 4 2000 0 =
     (Inr 42,
      \<lparr>world = 4, actions = [Invoke, Sleep 2000, Invoke, Sleep 4000, Invoke, Sleep 8000, Invoke]\<rparr>)"
proof -
  let ?op = "scripted [Inl busy, Inl unavailable, Inl busyAgain, Inr (42::int)]"
  let ?errs = "\<lambda>k. [busy, unavailable, busyAgain] ! k"
  have h1: "\<forall>k<3. outcomeAt ?op k 0 = Inl (?errs k) \<and> shouldRetry (?errs k)"
    by (simp add: scripted_outcomes less_Suc_eq numeral_3_eq_3 shouldRetry_def busy_def
        unavailable_def busyAgain_def)
  have h2: "outcomeAt ?op 3 0 = Inr 42"
    by (simp add: scripted_outcomes)
  show ?thesis
    using retryOperation_three_failures [OF h1 h2, of 4 2000]
    by (simp add: scripted_outcomes)
qed

text \<open>
  Claim C2 as stated fails: on three transient failures followed by a success, the default
  \<open>retryOperation\<close> makes 3 invocations, not 4, and rejects instead of resolving with 42.
\<close>

theorem retryOperation_fourth_attempt_counterexample:
  "calls (snd (retryOperationDefault (scripted [Inl busy, Inl unavailable, Inl busyAgain, Inr (42::int)]) 0)) = 3
   \<and> fst (retryOperationDefault (scripted [Inl busy, Inl unavailable, Inl busyAgain, Inr (42::int)]) 0)
       = Inl (Thrown busyAgain)
   \<and> calls (snd (retryOperationDefault (scripted [Inl busy, Inl unavailable, Inl busyAgain, Inr (42::int)]) 0)) \<noteq> 4
   \<and> fst (retryOperationDefault (scripted [Inl busy, Inl unavailable, Inl busyAgain, Inr (42::int)]) 0)
       \<noteq> Inr 42"
  by code_simp

text \<open>
  Claim C3. When the first invocation fails with an error whose status is neither 429 nor 503,
  \<open>retryOperation\<close> invokes the operation exactly once, issues no delay, and rejects with
  that same error.
\<close>

theorem retryOperation_non_transient:
  assumes "0 < maxRetries" and "fst (operation w) = Inl e" and "\<not> shouldRetry e"
  shows "retryOperation operation maxRetries initialDelay w =
           (Inl (Thrown e), \<lparr>world = snd (operation w), actions = [Invoke]\<rparr>)
         \<and> calls (snd (retryOperation operation maxRetries initialDelay w)) = 1
         \<and> delays (snd (retryOperation operation maxRetries initialDelay w)) = []"
proof -
  obtain w' where op: "operation w = (Inl e, w')"
    using assms(2) by (cases "operation w") simp
  have "retryOperation operation maxRetries initialDelay w =
           (Inl (Thrown e), \<lparr>world = snd (operation w), actions = [Invoke]\<rparr>)"
    unfolding retryOperation_def
    by (subst retryLoop.simps) (simp add: op assms)
  then show ?thesis
    by (simp add: calls_def delays_def)
qed

text \<open>
  A first failure with status 403 under the default policy: one invocation, no sleep.
\<close>

theorem retryOperation_non_transient_witness:
  "retryOperationDefault (scripted [Inl denied, Inr (42::int)]) 0 =
     (Inl (Thrown denied), \<lparr>world = 1, actions = [Invoke]\<rparr>)
   \<and> calls (snd (retryOperationDefault (scripted [Inl denied, Inr (42::int)]) 0)) = 1
   \<and> delays (snd (retryOperationDefault (scripted [Inl denied, Inr (42::int)]) 0)) = []"
proof -
  let ?op = "scripted [Inl denied, Inr (42::int)]"
  have h1: "(0::int) < 3" by simp
  have h2: "fst (?op 0) = Inl denied" by (simp add: scripted_def)
  have h3: "\<not> shouldRetry denied" by (simp add: shouldRetry_def denied_def)
  show ?thesis
    using retryOperation_non_transient
      [where maxRetries = 3 and operation = "?op" and w = 0 and e = denied
         and initialDelay = 2000, OF h1 h2 h3]
    by (simp add: retryOperationDefault_def scripted_def calls_def delays_def)
qed

section \<open>Properties of the local-service lookup\<close>

lemma retryOperationDefault_first_success:
  assumes "fst (operation w) = Inr v"
  shows "retryOperationDefault operation w = (Inr v, \<lparr>world = snd (operation w), actions = [Invoke]\<rparr>)"
proof -
  obtain w' where op: "operation w = (Inr v, w')"
    using assms by (cases "operation w") simp
  show ?thesis
    unfolding retryOperationDefault_def retryOperation_def
    by (subst retryLoop.simps) (simp add: op)
qed

lemma findLocalServices_operation_cases:
  "fst (findLocalServices_operation apiKey generateContent parse query loc w) =
     (case fst (findLocalServices_try apiKey generateContent parse query loc w) of
        Inl e \<Rightarrow> Inr \<lparr>providers = []\<rparr> | Inr result \<Rightarrow> Inr result)"
  by (simp add: findLocalServices_operation_def split: prod.splits sum.splits)

lemma findLocalServices_operation_returns:
  "\<exists>result. fst (findLocalServices_operation apiKey generateContent parse query loc w) = Inr result"
  by (simp add: findLocalServices_operation_cases split: sum.splits)

text \<open>
  Claim C8. Whatever fails inside the lookup's \<open>try\<close> block (the missing API key, the
  request, an empty reply, \<open>JSON.parse\<close>), \<open>findLocalServices\<close> resolves with
  \<open>{ providers: [] }\<close>; and it resolves in every case, so its caller never sees a
  rejection: \<open>handleSearchForPhase\<close> with a location never shows its failure notice.
\<close>

theorem findLocalServices_degrades:
  "(fst (findLocalServices_try apiKey generateContent parse query loc w) = Inl e \<longrightarrow>
      fst (findLocalServices apiKey generateContent parse query loc w) = Inr \<lparr>providers = []\<rparr>)
   \<and> (\<exists>result. fst (findLocalServices apiKey generateContent parse query loc w) = Inr result)
   \<and> viewAlerts (handleSearchForPhase (findLocalServices apiKey generateContent parse)
        (Some loc) index query v) = viewAlerts v"
proof -
  obtain result where r: "fst (findLocalServices_operation apiKey generateContent parse query loc w) = Inr result"
    using findLocalServices_operation_returns [of apiKey generateContent parse query loc w]
    by auto
  have f: "fst (findLocalServices apiKey generateContent parse query loc w) = Inr result"
    unfolding findLocalServices_def retryOperationDefault_first_success
      [of "findLocalServices_operation apiKey generateContent parse query loc" w result, OF r] by simp
  have "result = \<lparr>providers = []\<rparr>"
    if "fst (findLocalServices_try apiKey generateContent parse query loc w) = Inl e"
    using r that by (simp add: findLocalServices_operation_cases)
  moreover
  obtain result' where r': "fst (findLocalServices_operation apiKey generateContent parse query loc (net v)) = Inr result'"
    using findLocalServices_operation_returns [of apiKey generateContent parse query loc "net v"]
    by auto
  have "findLocalServices apiKey generateContent parse query loc (net v) =
          (Inr result', \<lparr>world = snd (findLocalServices_operation apiKey generateContent parse query loc (net v)), actions = [Invoke]\<rparr>)"
    unfolding findLocalServices_def
    by (rule retryOperationDefault_first_success
        [of "findLocalServices_operation apiKey generateContent parse query loc" "net v" result',
          OF r'])
  then have "viewAlerts (handleSearchForPhase (findLocalServices apiKey generateContent parse)
        (Some loc) index query v) = viewAlerts v"
    by (simp add: handleSearchForPhase_def)
  ultimately show ?thesis using f by simp
qed

text \<open>
  The four failures named by the claim, each giving the empty result: no API key, a request
  rejected with status 503, a reply without text, and a reply that does not parse.
\<close>

theorem findLocalServices_degrades_witness:
  "fst (findLocalServices None (scriptedService [Inr \<lparr>responseText = Some ''ok''\<rparr>]) sampleParse
          ''Nursery'' here 0) = Inr \<lparr>providers = []\<rparr>
   \<and> fst (findLocalServices (Some ''key'') (scriptedService [Inl unavailable]) sampleParse
          ''Nursery'' here 0) = Inr \<lparr>providers = []\<rparr>
   \<and> fst (findLocalServices (Some ''key'') (scriptedService [Inr \<lparr>responseText = None\<rparr>]) sampleParse
          ''Nursery'' here 0) = Inr \<lparr>providers = []\<rparr>
   \<and> fst (findLocalServices (Some ''key'') (scriptedService [Inr \<lparr>responseText = Some ''{''\<rparr>])
          sampleParse ''Nursery'' here 0) = Inr \<lparr>providers = []\<rparr>"
proof -
  have k: "fst (findLocalServices_try None (scriptedService [Inr \<lparr>responseText = Some ''ok''\<rparr>])
             sampleParse ''Nursery'' here 0)
           = Inl \<lparr>status = None,
                message = ''API Key is missing. Please check your environment variables.''\<rparr>"
    by (simp add: findLocalServices_try_def getAI_def truthy_def)
  have q: "fst (findLocalServices_try (Some ''key'') (scriptedService [Inl unavailable])
             sampleParse ''Nursery'' here 0) = Inl unavailable"
    by (simp add: findLocalServices_try_def getAI_def truthy_def scriptedService_def scripted_def)
  have n: "fst (findLocalServices_try (Some ''key'') (scriptedService [Inr \<lparr>responseText = None\<rparr>])
             sampleParse ''Nursery'' here 0) = Inl \<lparr>status = None, message = ''No services found''\<rparr>"
    by (simp add: findLocalServices_try_def getAI_def truthy_def scriptedService_def scripted_def)
  have j: "fst (findLocalServices_try (Some ''key'')
             (scriptedService [Inr \<lparr>responseText = Some ''{''\<rparr>]) sampleParse ''Nursery'' here 0)
           = Inl \<lparr>status = None, message = ''SyntaxError''\<rparr>"
    by (simp add: findLocalServices_try_def getAI_def truthy_def scriptedService_def scripted_def
        sampleParse_def)
  show ?thesis
    using findLocalServices_degrades [THEN conjunct1, THEN mp, OF k]
      findLocalServices_degrades [THEN conjunct1, THEN mp, OF q]
      findLocalServices_degrades [THEN conjunct1, THEN mp, OF n]
      findLocalServices_degrades [THEN conjunct1, THEN mp, OF j]
    by simp
qed

text \<open>
  Claim C9. \<open>findLocalServices\<close> never reaches the retry branch: in every case, transient
  errors of the request included, \<open>retryOperation\<close> invokes the operation exactly once and
  sleeps never.
\<close>

theorem findLocalServices_single_attempt:
  "snd (findLocalServices apiKey generateContent parse query loc w) =
     \<lparr>world = snd (findLocalServices_operation apiKey generateContent parse query loc w),
      actions = [Invoke]\<rparr>
   \<and> calls (snd (findLocalServices apiKey generateContent parse query loc w)) = 1
   \<and> delays (snd (findLocalServices apiKey generateContent parse query loc w)) = []"
proof -
  obtain result where r: "fst (findLocalServices_operation apiKey generateContent parse query loc w) = Inr result"
    using findLocalServices_operation_returns [of apiKey generateContent parse query loc w]
    by auto
  show ?thesis
    unfolding findLocalServices_def retryOperationDefault_first_success
      [of "findLocalServices_operation apiKey generateContent parse query loc" w result, OF r]
    by (simp add: calls_def delays_def)
qed

text \<open>
  A request rejected with status 429: still one invocation and no sleep.
\<close>

theorem findLocalServices_single_attempt_witness:
  "snd (findLocalServices (Some ''key'') (scriptedService [Inl busy]) sampleParse ''Nursery'' here 0)
     = \<lparr>world = 1, actions = [Invoke]\<rparr>
   \<and> calls (snd (findLocalServices (Some ''key'') (scriptedService [Inl busy]) sampleParse
        ''Nursery'' here 0)) = 1
   \<and> delays (snd (findLocalServices (Some ''key'') (scriptedService [Inl busy]) sampleParse
        ''Nursery'' here 0)) = []"
  using findLocalServices_single_attempt
    [of "Some ''key''" "scriptedService [Inl busy]" sampleParse "''Nursery''" here 0]
  by (simp add: findLocalServices_operation_def findLocalServices_try_def getAI_def truthy_def
      scriptedService_def scripted_def calls_def delays_def)

lemma findLocalServices_rate_limited:
  "findLocalServices (Some ''key'') (scriptedService [Inl busy]) sampleParse ''Nursery'' here 0 =
     (Inr \<lparr>providers = []\<rparr>, \<lparr>world = 1, actions = [Invoke]\<rparr>)"
  by code_simp

lemma findLocalServices_found:
  "findLocalServices (Some ''key'') (scriptedService [Inr \<lparr>responseText = Some ''ok''\<rparr>]) sampleParse ''Nursery'' here 0 =
     (Inr \<lparr>providers = [nursery]\<rparr>, \<lparr>world = 1, actions = [Invoke]\<rparr>)"
  by code_simp

text \<open>
  Claim C7. For every phase index, \<open>handleSearchForPhase\<close> without a location only shows
  the location-required notice: \<open>findLocalServices\<close> is not invoked, the outside world is
  untouched, and the per-phase results and loading flags stay as they were.
\<close>

theorem handleSearchForPhase_without_location:
  "handleSearchForPhase lookup None index category v =
     v\<lparr>viewAlerts := viewAlerts v @ [''Location is required to find local help.'']\<rparr>
   \<and> lookups (handleSearchForPhase lookup None index category v) = lookups v
   \<and> net (handleSearchForPhase lookup None index category v) = net v
   \<and> phaseResults (handleSearchForPhase lookup None index category v) = phaseResults v
   \<and> loadingPhases (handleSearchForPhase lookup None index category v) = loadingPhases v"
  by (simp add: handleSearchForPhase_def)

text \<open>
  The empty view, phase 0, no location: only the notice appears.
\<close>

theorem handleSearchForPhase_without_location_witness:
  "handleSearchForPhase (findLocalServices (Some ''key'') (scriptedService [Inl busy]) sampleParse)
     None 0 ''Nursery'' emptyView =
     emptyView\<lparr>viewAlerts := [''Location is required to find local help.'']\<rparr>
   \<and> lookups (handleSearchForPhase
        (findLocalServices (Some ''key'') (scriptedService [Inl busy]) sampleParse)
        None 0 ''Nursery'' emptyView) = 0
   \<and> net (handleSearchForPhase
        (findLocalServices (Some ''key'') (scriptedService [Inl busy]) sampleParse)
        None 0 ''Nursery'' emptyView) = 0"
  using handleSearchForPhase_without_location
    [of "findLocalServices (Some ''key'') (scriptedService [Inl busy]) sampleParse" 0 "''Nursery''"
      emptyView]
  by (simp add: emptyView_def)

lemma handleSearchForPhase_with_location:
  "lookups (handleSearchForPhase lookup (Some l) index category v) = Suc (lookups v)"
  by (simp add: handleSearchForPhase_def Let_def split: prod.splits sum.splits)

section \<open>Properties of the views and the controller\<close>

lemma suitabilityData_entries: "suitabilityData a = suitability a"
  by (simp add: suitabilityData_def)

lemma click_strategyButton:
  "click (strategyButton bud g item) =
     (if \<not> g \<and> 30 < snd item then [(fst item, bud)] else [])"
  by (simp add: click_def strategyButton_def isViable_def)

lemma selectable_iff:
  "(t, b) \<in> set (selectable a bud g) \<longleftrightarrow>
     (\<not> g \<and> b = bud \<and> (\<exists>score. (t, score) \<in> set (suitability a) \<and> 30 < score))"
  by (force simp: selectable_def AnalysisView_def suitabilityData_entries click_strategyButton)

text \<open>
  Claim C10. In the analysis review view a strategy whose suitability score is not greater than
  30 gets a disabled button whose click handler calls nothing, so (the keys of \<open>suitability\<close>
  being distinct, as the keys of an object are) \<open>onSelectType\<close> is never invoked for it; every
  \<open>onSelectType\<close> call the view can make, and so every generation the page lets the user start,
  is for a strategy scored strictly above 30.
\<close>

theorem unsuitable_type_not_selectable:
  "(\<forall>item \<in> set (suitabilityData a). snd item \<le> 30 \<longrightarrow>
      disabled (strategyButton bud g item) \<and> onClick (strategyButton bud g item) = [])
   \<and> (distinct (map fst (suitability a)) \<longrightarrow>
        (\<forall>(t, score) \<in> set (suitability a). score \<le> 30 \<longrightarrow> (t, b) \<notin> set (selectable a bud g)))
   \<and> (\<forall>(t, b') \<in> set (selectable a bud g). \<exists>score. (t, score) \<in> set (suitability a) \<and> 30 < score)
   \<and> (viewAllows (SelectType t b) s \<longrightarrow>
        (\<exists>a' score. analysis (project s) = Some a' \<and> (t, score) \<in> set (suitability a') \<and> 30 < score))"
proof (intro conjI)
  show "\<forall>item \<in> set (suitabilityData a). snd item \<le> 30 \<longrightarrow>
      disabled (strategyButton bud g item) \<and> onClick (strategyButton bud g item) = []"
    by (simp add: strategyButton_def isViable_def)
next
  show "distinct (map fst (suitability a)) \<longrightarrow>
        (\<forall>(t, score) \<in> set (suitability a). score \<le> 30 \<longrightarrow> (t, b) \<notin> set (selectable a bud g))"
  proof (intro impI ballI, clarify)
    fix t score
    assume d: "distinct (map fst (suitability a))" and m: "(t, score) \<in> set (suitability a)"
      and low: "score \<le> 30" and sel: "(t, b) \<in> set (selectable a bud g)"
    from sel obtain score' where m': "(t, score') \<in> set (suitability a)" and high: "30 < score'"
      by (auto simp: selectable_iff)
    from d m m' have "score = score'"
      by (rule eq_key_imp_eq_value)
    with low high show False by simp
  qed
next
  show "\<forall>(t, b') \<in> set (selectable a bud g). \<exists>score. (t, score) \<in> set (suitability a) \<and> 30 < score"
    by (auto simp: selectable_iff)
next
  show "viewAllows (SelectType t b) s \<longrightarrow>
        (\<exists>a' score. analysis (project s) = Some a' \<and> (t, score) \<in> set (suitability a') \<and> 30 < score)"
    by (auto simp: selectable_iff split: option.splits)
qed


text \<open>
  The sample analysis: the rain garden, scored exactly 30, is disabled and cannot be selected;
  the pollinator haven, scored 85, can.
\<close>

theorem unsuitable_type_not_selectable_witness:
  "disabled (strategyButton MEDIUM False (RAIN_GARDEN, 30))
   \<and> onClick (strategyButton MEDIUM False (RAIN_GARDEN, 30)) = []
   \<and> (RAIN_GARDEN, MEDIUM) \<notin> set (selectable sampleAnalysis MEDIUM False)
   \<and> (POLLINATOR_HAVEN, MEDIUM) \<in> set (selectable sampleAnalysis MEDIUM False)
   \<and> viewAllows (SelectType POLLINATOR_HAVEN MEDIUM) reviewSession
   \<and> (\<exists>score. (POLLINATOR_HAVEN, score) \<in> set (suitability sampleAnalysis) \<and> 30 < score)"
proof -
  have m: "(RAIN_GARDEN, 30) \<in> set (suitabilityData sampleAnalysis)"
    "(RAIN_GARDEN, 30) \<in> set (suitability sampleAnalysis)"
    by (simp_all add: suitabilityData_def sampleAnalysis_def)
  have d: "distinct (map fst (suitability sampleAnalysis))"
    by (simp add: sampleAnalysis_def)
  have sel: "selectable sampleAnalysis MEDIUM False = [(POLLINATOR_HAVEN, MEDIUM), (NATIVE_MEADOW, MEDIUM)]"
    by (simp add: selectable_def AnalysisView_def suitabilityData_def sampleAnalysis_def
        click_def strategyButton_def isViable_def)
  have v: "viewAllows (SelectType POLLINATOR_HAVEN MEDIUM) reviewSession"
    by (simp add: reviewSession_def sel)
  have a: "analysis (project reviewSession) = Some sampleAnalysis"
    by (simp add: reviewSession_def)
  note low = unsuitable_type_not_selectable
    [of sampleAnalysis MEDIUM False MEDIUM RAIN_GARDEN reviewSession]
  note high = unsuitable_type_not_selectable
    [of sampleAnalysis MEDIUM False MEDIUM POLLINATOR_HAVEN reviewSession]
  have 1: "disabled (strategyButton MEDIUM False (RAIN_GARDEN, 30))
     \<and> onClick (strategyButton MEDIUM False (RAIN_GARDEN, 30)) = []"
    using low [THEN conjunct1] m(1) by fastforce
  have 2: "(RAIN_GARDEN, MEDIUM) \<notin> set (selectable sampleAnalysis MEDIUM False)"
    using low [THEN conjunct2, THEN conjunct1] d m(2) by fastforce
  have 3: "\<exists>score. (POLLINATOR_HAVEN, score) \<in> set (suitability sampleAnalysis) \<and> 30 < score"
    using high [THEN conjunct2, THEN conjunct2, THEN conjunct2] v a by simp
  show ?thesis
    using 1 2 3 v by (simp add: sel)
qed

lemma promiseAll_fulfils:
  "(\<exists>r. promiseAll imageOutcome planOutcome imageFirst = Inr r) \<longleftrightarrow>
     (\<exists>img pl. imageOutcome = Inr img \<and> planOutcome = Inr pl)"
  by (cases imageOutcome; cases planOutcome) (simp_all add: promiseAll_def)

lemma promiseAll_rejects:
  "isl (promiseAll imageOutcome planOutcome imageFirst) \<longleftrightarrow> isl imageOutcome \<or> isl planOutcome"
  by (cases imageOutcome; cases planOutcome) (simp_all add: promiseAll_def)

lemma handleTypeSelection_settle_rejected:
  "isl outcome \<Longrightarrow>
     appState (handleTypeSelection_settle outcome s) = REVIEW_ANALYSIS \<and>
     project (handleTypeSelection_settle outcome s) = project s"
  by (cases outcome) (simp_all add: handleTypeSelection_settle_def)

lemma handleTypeSelection_settle_fulfilled:
  "appState (handleTypeSelection_settle (Inr (img, pl)) s) = COMPLETE \<and>
   project (handleTypeSelection_settle (Inr (img, pl)) s) =
     (project s)\<lparr>restoredImage := Some img, plan := Some pl\<rparr>"
  by (simp add: handleTypeSelection_settle_def)

lemma handleTypeSelection_settle_complete:
  "appState (handleTypeSelection_settle outcome s) = COMPLETE \<longleftrightarrow> \<not> isl outcome"
  by (cases outcome) (auto simp: handleTypeSelection_settle_def)

text \<open>
  Claim C4. Once \<open>handleTypeSelection\<close> is past its guard, the state is
  \<open>GENERATING_VISION\<close> while it waits, and becomes \<open>COMPLETE\<close> exactly when both the image
  and the plan promise have fulfilled. If either rejects, the state is set back to
  \<open>REVIEW_ANALYSIS\<close> and \<open>plan\<close> and \<open>restoredImage\<close> are what they were before the attempt.
  The last two conjuncts say the same of the continuation alone, on whatever state \<open>s'\<close> it
  finds when the promises settle: a rejection leaves the whole project untouched.
\<close>

theorem handleTypeSelection_all_or_nothing:
  assumes "truthy (originalImage (project s))" and "analysis (project s) \<noteq> None"
  shows "appState (fst (handleTypeSelection_begin type bud s)) = GENERATING_VISION
    \<and> (appState (handleTypeSelection type bud imageOutcome planOutcome imageFirst s) = COMPLETE
         \<longleftrightarrow> (\<exists>img pl. imageOutcome = Inr img \<and> planOutcome = Inr pl))
    \<and> (isl imageOutcome \<or> isl planOutcome \<longrightarrow>
         appState (handleTypeSelection type bud imageOutcome planOutcome imageFirst s) = REVIEW_ANALYSIS
         \<and> plan (project (handleTypeSelection type bud imageOutcome planOutcome imageFirst s))
             = plan (project s)
         \<and> restoredImage (project (handleTypeSelection type bud imageOutcome planOutcome imageFirst s))
             = restoredImage (project s))
    \<and> (appState (handleTypeSelection_settle (promiseAll imageOutcome planOutcome imageFirst) s')
          = COMPLETE \<longleftrightarrow> (\<exists>img pl. imageOutcome = Inr img \<and> planOutcome = Inr pl))
    \<and> (isl imageOutcome \<or> isl planOutcome \<longrightarrow>
         appState (handleTypeSelection_settle (promiseAll imageOutcome planOutcome imageFirst) s')
           = REVIEW_ANALYSIS
         \<and> project (handleTypeSelection_settle (promiseAll imageOutcome planOutcome imageFirst) s')
             = project s')"
proof -
  let ?s1 = "s\<lparr>project := (project s)\<lparr>selectedType := Some type, budget := bud\<rparr>,
              appState := GENERATING_VISION\<rparr>"
  let ?r = "promiseAll imageOutcome planOutcome imageFirst"
  have b: "handleTypeSelection_begin type bud s = (?s1, True)"
    using assms by (simp add: handleTypeSelection_begin_def)
  have h: "handleTypeSelection type bud imageOutcome planOutcome imageFirst s =
             handleTypeSelection_settle ?r ?s1"
    by (simp add: handleTypeSelection_def b)
  have both: "\<not> isl ?r \<longleftrightarrow> (\<exists>img pl. imageOutcome = Inr img \<and> planOutcome = Inr pl)"
    by (cases imageOutcome; cases planOutcome) (simp_all add: promiseAll_def)
  have rej: "isl imageOutcome \<or> isl planOutcome \<Longrightarrow> isl ?r"
    by (simp add: promiseAll_rejects)
  show ?thesis
    unfolding h b
    using handleTypeSelection_settle_rejected [OF rej, of ?s1]
      handleTypeSelection_settle_rejected [OF rej, of s']
    by (simp add: handleTypeSelection_settle_complete both)
qed

text \<open>
  From the review session: both promises fulfilled gives \<open>COMPLETE\<close>; a rejected image
  promise gives \<open>REVIEW_ANALYSIS\<close> with \<open>plan\<close> and \<open>restoredImage\<close> still null.
\<close>

theorem handleTypeSelection_all_or_nothing_witness:
  "appState (handleTypeSelection POLLINATOR_HAVEN MEDIUM (Inr ''render'') (Inr samplePlan) True
      reviewSession) = COMPLETE
   \<and> appState (handleTypeSelection POLLINATOR_HAVEN MEDIUM (Inl (Thrown unavailable))
        (Inr samplePlan) True reviewSession) = REVIEW_ANALYSIS
   \<and> plan (project (handleTypeSelection POLLINATOR_HAVEN MEDIUM (Inl (Thrown unavailable))
        (Inr samplePlan) True reviewSession)) = None
   \<and> restoredImage (project (handleTypeSelection POLLINATOR_HAVEN MEDIUM (Inl (Thrown unavailable))
        (Inr samplePlan) True reviewSession)) = None"
proof -
  have h1: "truthy (originalImage (project reviewSession))"
    by (simp add: reviewSession_def truthy_def)
  have h2: "analysis (project reviewSession) \<noteq> None"
    by (simp add: reviewSession_def)
  have p: "plan (project reviewSession) = None" "restoredImage (project reviewSession) = None"
    by (simp_all add: reviewSession_def)
  show ?thesis
    using handleTypeSelection_all_or_nothing
        [OF h1 h2, of POLLINATOR_HAVEN MEDIUM "Inr ''render''" "Inr samplePlan" True reviewSession]
      handleTypeSelection_all_or_nothing
        [OF h1 h2, of POLLINATOR_HAVEN MEDIUM "Inl (Thrown unavailable)" "Inr samplePlan" True
          reviewSession]
    by (simp add: p)
qed

text \<open>
  Claim C6. When the awaited \<open>analyzeSiteImage\<close> call rejects after an upload into the initial
  session, the state is set to \<open>IDLE\<close> and \<open>analysis\<close> is still null; from any state, a
  rejected \<open>startAnalysis\<close> sets \<open>IDLE\<close> and leaves the project as it was.
\<close>

theorem startAnalysis_failure:
  "appState (startAnalysis_settle (Inl e) (handleFileUpload base64Data initialController)) = IDLE
   \<and> analysis (project (startAnalysis_settle (Inl e) (handleFileUpload base64Data initialController)))
       = None
   \<and> appState (startAnalysis base64Data (Inl e) s) = IDLE
   \<and> project (startAnalysis base64Data (Inl e) s) = project s"
  by (simp add: startAnalysis_def startAnalysis_settle_def startAnalysis_begin_def
      handleFileUpload_def initialController_def initialProject_def)

text \<open>
  An upload whose analysis is rejected with status 503, as a run of the session.
\<close>

theorem startAnalysis_failure_witness:
  "appState (startAnalysis_settle (Inl (Thrown unavailable)) (handleFileUpload ''photo'' initialController))
     = IDLE
   \<and> analysis (project (startAnalysis_settle (Inl (Thrown unavailable))
        (handleFileUpload ''photo'' initialController))) = None
   \<and> run [Upload ''photo'', AnalysisSettled (Inl (Thrown unavailable))] initialSession =
       Some (initialSession\<lparr>project := initialProject\<lparr>originalImage := Some ''photo''\<rparr>,
          alerts := [''Failed to analyze image. Please try again.'']\<rparr>)"
  using startAnalysis_failure [of "Thrown unavailable" "''photo''" initialController]
  by (simp add: startAnalysis_settle_def startAnalysis_begin_def
      handleFileUpload_def initialSession_def initialProject_def)

section \<open>Plan and analysis across a session\<close>

text \<open>The invariant behind the claim: an analysis is present whenever a plan is, and also
  whenever a generation is still waiting for its results.\<close>

lemma step_keeps_analysis:
  assumes inv: "plan (project s) \<noteq> None \<or> 0 < pendingGenerations s \<longrightarrow> analysis (project s) \<noteq> None"
    and st: "step e s = Some s'"
    and quiet: "e = Reset \<longrightarrow> pendingGenerations s = 0"
  shows "plan (project s') \<noteq> None \<or> 0 < pendingGenerations s' \<longrightarrow> analysis (project s') \<noteq> None"
proof (cases e)
  case (Upload d)
  with inv st show ?thesis
    by (auto simp: handleFileUpload_def startAnalysis_begin_def)
next
  case (AnalysisSettled outcome)
  with inv st show ?thesis
    by (cases outcome) (auto simp: startAnalysis_settle_def split: if_splits)
next
  case (LocationGranted position)
  with inv st show ?thesis
    by (auto simp: handleLocationRequest_def)
next
  case (SelectType t b)
  with inv st show ?thesis
    by (auto simp: handleTypeSelection_begin_def split: if_splits)
next
  case (GenerationSettled imageOutcome planOutcome imageFirst)
  with inv st show ?thesis
    by (cases "promiseAll imageOutcome planOutcome imageFirst")
       (auto simp: handleTypeSelection_settle_def split: if_splits)
next
  case Reset
  with inv st quiet show ?thesis
    by (auto simp: resetApp_def initialProject_def)
qed

lemma run_keeps_analysis:
  "plan (project s) \<noteq> None \<or> 0 < pendingGenerations s \<longrightarrow> analysis (project s) \<noteq> None \<Longrightarrow>
   run evs s = Some s' \<Longrightarrow> resetsWhenSettled evs s \<Longrightarrow>
   plan (project s') \<noteq> None \<or> 0 < pendingGenerations s' \<longrightarrow> analysis (project s') \<noteq> None"
proof (induction evs arbitrary: s)
  case Nil
  then show ?case by simp
next
  case (Cons e evs)
  from Cons.prems(2) obtain s1 where s1: "step e s = Some s1" and r: "run evs s1 = Some s'"
    by (auto split: option.splits)
  from Cons.prems(3) s1 have q: "e = Reset \<longrightarrow> pendingGenerations s = 0"
    and q': "resetsWhenSettled evs s1"
    by simp_all
  from step_keeps_analysis [OF Cons.prems(1) s1 q]
  show ?case
    by (rule Cons.IH [OF _ r q'])
qed

text \<open>
  Claim C5, as the code has it. In every state reached by a run of the handlers in which
  \<open>resetApp\<close> is never invoked while a \<open>handleTypeSelection\<close> is still waiting for its
  results, a non-null \<open>plan\<close> comes with a non-null \<open>analysis\<close>: \<open>plan\<close> is only assigned
  by \<open>handleTypeSelection\<close>, which returns early when \<open>analysis\<close> is null, and
  \<open>resetApp\<close> clears both.
\<close>

theorem plan_needs_analysis_without_stale_results:
  assumes "run evs initialSession = Some s" and "resetsWhenSettled evs initialSession"
  shows "plan (project s) \<noteq> None \<longrightarrow> analysis (project s) \<noteq> None"
proof -
  have "plan (project initialSession) \<noteq> None \<or> 0 < pendingGenerations initialSession
          \<longrightarrow> analysis (project initialSession) \<noteq> None"
    by (simp add: initialSession_def initialProject_def)
  from run_keeps_analysis [OF this assms] show ?thesis
    by simp
qed

text \<open>
  Two projects in a row, the reset between them made after the first generation has
  settled: the final state has both a plan and an analysis.
\<close>

theorem plan_needs_analysis_without_stale_results_witness:
  "run completedFlow initialSession \<noteq> None
   \<and> resetsWhenSettled completedFlow initialSession
   \<and> plan (project (the (run completedFlow initialSession))) \<noteq> None
   \<and> analysis (project (the (run completedFlow initialSession))) \<noteq> None"
proof -
  have r: "run completedFlow initialSession \<noteq> None"
    by code_simp
  then obtain s where s: "run completedFlow initialSession = Some s"
    by auto
  have q: "resetsWhenSettled completedFlow initialSession"
    by code_simp
  have p: "plan (project (the (run completedFlow initialSession))) \<noteq> None"
    by code_simp
  from plan_needs_analysis_without_stale_results [OF s q] p s
  show ?thesis using r q by simp
qed

text \<open>
  Claim C5 as stated fails. Upload, analysis, strategy chosen, then the header's reset while
  the generation is in flight: nothing cancels it, and when both promises fulfil
  \<open>setProject(prev => ({ ...prev, restoredImage, plan }))\<close> writes the plan into the reset
  project. Every step is one the page on screen offers. The state reached is \<open>COMPLETE\<close>
  with a plan and no analysis.
\<close>

theorem plan_without_analysis_counterexample:
  "runView staleGeneration initialSession =
     Some \<lparr>appState = COMPLETE,
           project = \<lparr>originalImage = None, restoredImage = Some ''render'', analysis = None,
                      selectedType = None, budget = MEDIUM, plan = Some samplePlan,
                      location = None\<rparr>,
           alerts = [], pendingAnalyses = 0, pendingGenerations = 0\<rparr>
   \<and> run staleGeneration initialSession = runView staleGeneration initialSession
   \<and> map_option planWithoutAnalysis (runView staleGeneration initialSession) = Some True"
  by (simp add: staleGeneration_def initialSession_def initialProject_def handleFileUpload_def
      startAnalysis_begin_def startAnalysis_settle_def handleTypeSelection_begin_def
      handleTypeSelection_settle_def promiseAll_def resetApp_def truthy_def selectable_def
      AnalysisView_def suitabilityData_def sampleAnalysis_def click_def strategyButton_def
      isViable_def planWithoutAnalysis_def)

end
